theory Spec2Isabelle
  imports Complex_Main "HOL-Library.AList"
begin

section \<open>Python values and string operations used by the helpers\<close>

text \<open>
  Python strings are modelled as \<open>string\<close> (lists of 8-bit characters); the model
  covers ASCII text, which is what datastore references, mode names and version labels
  are made of. Python's \<open>int\<close> is \<open>int\<close> (unbounded; the interpreter's configurable
  limit on the digit count of a conversion is outside the model).
\<close>

datatype error =
    AssertionError string
  | ValueError string
  | InvalidLiteral string
  | IndexError
  | KeyError string
  | TypeError string
  | AttributeError string

text \<open>\<open>InvalidLiteral s\<close> is the \<open>ValueError\<close> that \<open>int(s)\<close> raises.\<close>

definition isdigit :: "char \<Rightarrow> bool" where
  "isdigit c = (c \<in> set ''0123456789'')"

text \<open>\<open>str.isdigit()\<close>: non-empty and every character a digit.\<close>

definition str_isdigit :: "string \<Rightarrow> bool" where
  "str_isdigit s = (s \<noteq> [] \<and> list_all isdigit s)"

text \<open>The ASCII characters that \<open>str.strip()\<close> removes.\<close>

definition isspace :: "char \<Rightarrow> bool" where
  "isspace c = (c \<in> set [CHR 0x09, CHR 0x0A, CHR 0x0B, CHR 0x0C, CHR 0x0D,
                           CHR 0x1C, CHR 0x1D, CHR 0x1E, CHR 0x1F, CHR 0x20])"

definition strip :: "string \<Rightarrow> string" where
  "strip s = rev (dropWhile isspace (rev (dropWhile isspace s)))"

text \<open>\<open>s.split(c)\<close> for a one-character separator.\<close>

fun split_on :: "char \<Rightarrow> string \<Rightarrow> string list" where
  "split_on c [] = [[]]"
| "split_on c (x # xs) =
     (if x = c then [] # split_on c xs
      else (case split_on c xs of [] \<Rightarrow> [[x]] | p # ps \<Rightarrow> (x # p) # ps))"

text \<open>\<open>sep.join(parts)\<close>.\<close>

fun join :: "string \<Rightarrow> string list \<Rightarrow> string" where
  "join sep [] = []"
| "join sep [p] = p"
| "join sep (p # q # ps) = p @ sep @ join sep (q # ps)"

text \<open>\<open>s.startswith(p)\<close>.\<close>

definition startswith :: "string \<Rightarrow> string \<Rightarrow> bool" where
  "startswith s p = (take (length p) s = p)"

subsection \<open>Decimal conversions\<close>

definition digit_char :: "nat \<Rightarrow> char" where
  "digit_char d = ''0123456789'' ! d"

definition digit_val :: "char \<Rightarrow> nat" where
  "digit_val c = of_char c - 48"

function str_nat :: "nat \<Rightarrow> string" where
  "str_nat n = (if n < 10 then [digit_char n] else str_nat (n div 10) @ [digit_char (n mod 10)])"
  by pat_completeness auto
termination
  by (relation "measure (\<lambda>n. n)") auto

declare str_nat.simps [simp del]

text \<open>\<open>str(i)\<close> for an integer.\<close>

definition str_int :: "int \<Rightarrow> string" where
  "str_int i = (if i < 0 then CHR ''-'' # str_nat (nat (- i)) else str_nat (nat i))"

definition nat_of_digits :: "string \<Rightarrow> nat" where
  "nat_of_digits s = foldl (\<lambda>acc c. 10 * acc + digit_val c) 0 s"

text \<open>
  The digit part of an integer literal: digits, with single underscores allowed between
  two digits.
\<close>

fun digits_ok :: "string \<Rightarrow> bool" where
  "digits_ok [] = False"
| "digits_ok [c] = isdigit c"
| "digits_ok (c # d # r) =
     (isdigit c \<and> (if d = CHR ''_'' then digits_ok r else digits_ok (d # r)))"

text \<open>
  The white space that \<open>int()\<close> skips around an ASCII literal: blank and the
  characters 0x09 to 0x0D. The separators 0x1C to 0x1F, which \<open>str.strip()\<close>
  removes, are no white space for \<open>int()\<close>.
\<close>

definition int_space :: "char \<Rightarrow> bool" where
  "int_space c = (c \<in> set [CHR 0x09, CHR 0x0A, CHR 0x0B, CHR 0x0C, CHR 0x0D, CHR 0x20])"

definition int_strip :: "string \<Rightarrow> string" where
  "int_strip s = rev (dropWhile int_space (rev (dropWhile int_space s)))"

text \<open>
  \<open>int(s)\<close>: surrounding white space is skipped, one sign is allowed, the rest must
  be a digit part.
\<close>

definition py_int :: "string \<Rightarrow> error + int" where
  "py_int s =
     (let t = int_strip s;
          neg = (t \<noteq> [] \<and> hd t = CHR ''-'');
          body = (if t \<noteq> [] \<and> (hd t = CHR ''-'' \<or> hd t = CHR ''+'') then tl t else t)
      in if digits_ok body
         then (let n = int (nat_of_digits (filter (\<lambda>c. c \<noteq> CHR ''_'') body))
               in Inr (if neg then - n else n))
         else Inl (InvalidLiteral s))"

text \<open>\<open>list(map(int, parts))\<close>: the first part that is no literal raises.\<close>

fun map_int :: "string list \<Rightarrow> error + int list" where
  "map_int [] = Inr []"
| "map_int (p # ps) =
     (case py_int p of
        Inl e \<Rightarrow> Inl e
      | Inr i \<Rightarrow> (case map_int ps of Inl e \<Rightarrow> Inl e | Inr is \<Rightarrow> Inr (i # is)))"

section \<open>Environment versions (core/build\_/\_\_aml\_env.py)\<close>

text \<open>
  \<open>re.match(r"(\d+)\.(\d+)\.(\d+)", s)\<close>: the pattern is matched at the start of the
  string and need not reach its end. A greedy run of digits followed by a literal dot
  leaves no choice to backtracking, so the match is decided from left to right.
\<close>

definition re_match_version :: "string \<Rightarrow> bool" where
  "re_match_version s =
     (takeWhile isdigit s \<noteq> [] \<and>
      (case dropWhile isdigit s of
         [] \<Rightarrow> False
       | c # r \<Rightarrow>
           c = CHR ''.'' \<and> takeWhile isdigit r \<noteq> [] \<and>
           (case dropWhile isdigit r of
              [] \<Rightarrow> False
            | c' # r' \<Rightarrow> c' = CHR ''.'' \<and> takeWhile isdigit r' \<noteq> [])))"

text \<open>
  \<open>increment_version(version_string, increment)\<close>. The first argument \<open>now\<close> is the
  whole-second part of \<open>datetime.now().timestamp()\<close>, which the function reads on entry.
\<close>

definition increment_version :: "nat \<Rightarrow> string \<Rightarrow> bool \<Rightarrow> error + string" where
  "increment_version now version_string increment =
     (let default_version = str_nat now
      in if \<not> (re_match_version version_string \<or> str_isdigit version_string)
         then Inr default_version
         else if str_isdigit version_string
         then Inr (if increment
                   then str_int (int (nat_of_digits version_string) + 1)
                   else str_int (int (nat_of_digits version_string) - 1))
         else (case map_int (split_on CHR ''.'' version_string) of
                 Inl e \<Rightarrow> Inl e
               | Inr parts \<Rightarrow>
                   Inr (join ''.''
                          (map str_int
                             (butlast parts @
                                [if increment then last parts + 1 else last parts - 1])))))"

section \<open>Data references (core/\_aml.py)\<close>

text \<open>
  A value handed to a schema: \<open>Union[str, Number, bool]\<close>; \<open>None\<close> is the \<open>None\<close> of
  \<open>option\<close>. Of a float only its class and whether it is zero are ever inspected.
\<close>

datatype pyvalue = VBool bool | VStr string | VFloat real | VInt int

fun truthy :: "pyvalue \<Rightarrow> bool" where
  "truthy (VBool b) = b"
| "truthy (VStr s) = (s \<noteq> [])"
| "truthy (VFloat r) = (r \<noteq> 0)"
| "truthy (VInt i) = (i \<noteq> 0)"

text \<open>\<open>a or b\<close> on optional values.\<close>

definition py_or :: "pyvalue option \<Rightarrow> pyvalue option \<Rightarrow> pyvalue option" where
  "py_or a b = (case a of None \<Rightarrow> b | Some v \<Rightarrow> if truthy v then a else b)"

text \<open>\<open>repr\<close> of a string without quotes or escapes, of a list and of a tuple of such.\<close>

definition repr_str :: "string \<Rightarrow> string" where
  "repr_str s = [CHR 0x27] @ s @ [CHR 0x27]"

definition repr_list :: "string list \<Rightarrow> string" where
  "repr_list xs = ''['' @ join '', '' (map repr_str xs) @ '']''"

definition repr_tuple :: "string list \<Rightarrow> string" where
  "repr_tuple xs = ''('' @ join '', '' (map repr_str xs) @ '')''"

definition aml_uri :: "string \<Rightarrow> string \<Rightarrow> string \<Rightarrow> string \<Rightarrow> string \<Rightarrow> string" where
  "aml_uri subs rg ws ds pth =
     ''azureml://subscriptions/'' @ subs @ ''/resourcegroups/'' @ rg @ ''/workspaces/'' @ ws
       @ ''/datastores/'' @ ds @ ''/paths/'' @ pth"

text \<open>\<open>xs[i]\<close> for a non-negative index.\<close>

definition item :: "'a list \<Rightarrow> nat \<Rightarrow> error + 'a" where
  "item xs i = (if i < length xs then Inr (xs ! i) else Inl IndexError)"

text \<open>\<open>os.environ[k]\<close>.\<close>

definition environ_get :: "(string \<rightharpoonup> string) \<Rightarrow> string \<Rightarrow> error + string" where
  "environ_get environ k = (case environ k of None \<Rightarrow> Inl (KeyError k) | Some v \<Rightarrow> Inr v)"

text \<open>The module-level \<open>get_aml_uri(short_path)\<close>; \<open>environ\<close> is \<open>os.environ\<close>.\<close>

definition get_aml_uri :: "(string \<rightharpoonup> string) \<Rightarrow> string \<Rightarrow> error + string" where
  "get_aml_uri environ short_path =
     (case item (split_on CHR '':'' short_path) 0 of
        Inl e \<Rightarrow> Inl e
      | Inr p0 \<Rightarrow>
     (case item (split_on CHR '':'' short_path) 1 of
        Inl e \<Rightarrow> Inl e
      | Inr p1 \<Rightarrow>
     (let ds_name = strip p0;
          path_on_ds = strip p1;
          path_on_ds = (if startswith path_on_ds ''/'' then drop 1 path_on_ds else path_on_ds)
      in case environ_get environ ''SUBSCRIPTION_ID'' of
           Inl e \<Rightarrow> Inl e
         | Inr subs \<Rightarrow>
        (case environ_get environ ''RESOURCE_GROUP'' of
           Inl e \<Rightarrow> Inl e
         | Inr rg \<Rightarrow>
        (case environ_get environ ''WORKSPACE_NAME'' of
           Inl e \<Rightarrow> Inl e
         | Inr ws \<Rightarrow> Inr (aml_uri subs rg ws ds_name path_on_ds))))))"

record ml_client =
  subscription_id :: string
  resource_group_name :: string
  workspace_name :: string

record DataSchema =
  default_value :: "pyvalue option"
  data_type :: "string option"
  description :: "string option"
  client :: ml_client

definition IO_MODES_INPUT :: "string list" where
  "IO_MODES_INPUT = [''ro_mount'', ''download'', ''direct'', ''rw_mount'']"

definition IO_MODES_OUTPUT :: "string list" where
  "IO_MODES_OUTPUT = [''rw_mount'', ''upload'', ''direct'']"

definition INPUTS :: "string list" where
  "INPUTS = [''uri_folder'', ''uri_file'', ''mltable'', ''mlflow_model'', ''custom_model'',
             ''integer'', ''number'', ''string'', ''boolean'']"

text \<open>The text of \<open>f"{x}"\<close> for an optional string.\<close>

definition str_opt :: "string option \<Rightarrow> string" where
  "str_opt x = (case x of None \<Rightarrow> ''None'' | Some s \<Rightarrow> s)"

definition unsupported_type_msg :: "string option \<Rightarrow> string" where
  "unsupported_type_msg dt =
     ''Unsupported data type: '' @ str_opt dt @ ''. '' @ [CHR 0x0A, CHR 0x09]
       @ ''Must be one of: '' @ repr_tuple INPUTS"

definition unsupported_mode_msg :: "string \<Rightarrow> string list \<Rightarrow> string" where
  "unsupported_mode_msg m allowed =
     ''Unsupported mode: '' @ m @ ''. '' @ [CHR 0x0A, CHR 0x09]
       @ ''Must be one of: '' @ repr_list allowed"

text \<open>
  \<open>DataSchema.__validate\<close>: the assertion on the declared type (assertions are
  checked, as the interpreter does unless started with \<open>-O\<close>).
\<close>

definition validate :: "DataSchema \<Rightarrow> error + DataSchema" where
  "validate s =
     (if (case data_type s of None \<Rightarrow> False | Some t \<Rightarrow> t \<in> set INPUTS)
      then Inr s
      else Inl (AssertionError (unsupported_type_msg (data_type s))))"

text \<open>
  \<open>DataSchema.__init__\<close>. \<open>get_ml_client\<close> is the outcome of the ambient
  \<open>get_ml_client()\<close>, used when no client is passed.
\<close>

definition DataSchema_init ::
  "(error + ml_client) \<Rightarrow> string option \<Rightarrow> pyvalue option \<Rightarrow> string option \<Rightarrow>
   ml_client option \<Rightarrow> error + DataSchema" where
  "DataSchema_init get_ml_client dtype dflt descr ml_client_arg =
     (case (case ml_client_arg of Some c \<Rightarrow> Inr c | None \<Rightarrow> get_ml_client) of
        Inl e \<Rightarrow> Inl e
      | Inr c \<Rightarrow>
          validate \<lparr>default_value = dflt, data_type = dtype, description = descr, client = c\<rparr>)"

text \<open>\<open>DataSchema.__get_ds_uri\<close>; \<open>str.index\<close> raises when there is no colon.\<close>

definition get_ds_uri :: "ml_client \<Rightarrow> string \<Rightarrow> error + string" where
  "get_ds_uri c short_uri =
     (if CHR '':'' \<notin> set short_uri then Inl (ValueError ''substring not found'')
      else
        (let ind = length (takeWhile (\<lambda>x. x \<noteq> CHR '':'') short_uri);
             short_uri =
               (if length short_uri \<noteq> ind + 1 \<and> short_uri ! (ind + 1) = CHR ''/''
                then take (ind + 1) short_uri @ drop (ind + 2) short_uri
                else short_uri)
         in case item (split_on CHR '':'' short_uri) 0 of
              Inl e \<Rightarrow> Inl e
            | Inr ds_name \<Rightarrow>
           (case item (split_on CHR '':'' short_uri) 1 of
              Inl e \<Rightarrow> Inl e
            | Inr data_path \<Rightarrow>
                Inr (aml_uri (subscription_id c) (resource_group_name c) (workspace_name c)
                       ds_name data_path))))"

definition uri_prefixes :: "string list" where
  "uri_prefixes = [''azureml:'', ''https://'', ''http://'', ''wasbs://'', ''abfss://'', ''adl://'']"

definition has_uri_prefix :: "string \<Rightarrow> bool" where
  "has_uri_prefix v = list_ex (startswith v) uri_prefixes"

text \<open>
  \<open>DataSchema.__value2uri\<close>. \<open>fs p\<close> tells whether \<open>p\<close> is an existing file or
  directory; for a value that is no string \<open>Path(value)\<close> raises inside
  \<open>is_local_path\<close>, which answers \<open>False\<close>.
\<close>

definition value2uri ::
  "(string \<Rightarrow> bool) \<Rightarrow> ml_client \<Rightarrow> pyvalue option \<Rightarrow> error + string option" where
  "value2uri fs c v =
     (case v of
        Some (VStr s) \<Rightarrow>
          if has_uri_prefix s then Inr (Some s)
          else if CHR '':'' \<in> set s
          then (case get_ds_uri c s of Inl e \<Rightarrow> Inl e | Inr u \<Rightarrow> Inr (Some u))
          else if fs s then Inr (Some s)
          else Inr None
      | _ \<Rightarrow> Inr None)"

text \<open>\<open>DataSchema.__guess_dtype\<close>.\<close>

fun guess_dtype :: "pyvalue option \<Rightarrow> string option" where
  "guess_dtype (Some (VBool b)) = Some ''boolean''"
| "guess_dtype (Some (VStr s)) =
     (if startswith s ''azureml:''
      then (if CHR ''.'' \<in> set s then Some ''uri_file'' else Some ''uri_folder'')
      else Some ''string'')"
| "guess_dtype (Some (VFloat r)) = Some ''number''"
| "guess_dtype (Some (VInt i)) = Some ''integer''"
| "guess_dtype None = None"

text \<open>The built \<open>azure.ai.ml.Input\<close> or \<open>Output\<close>, with the fields the schema sets.\<close>

record aml_io =
  io_path :: "string option"
  io_type :: "string option"
  io_mode :: string
  io_description :: "string option"

datatype aml_entity = Input aml_io | Output aml_io

datatype direction = AsInput | AsOutput

text \<open>
  \<open>DataSchema.__to_aml\<close> (called without extra keyword arguments; \<open>as_dir\<close> is its
  parameter \<open>as_\<close>). It may store a
  guessed type in the schema, so the schema is returned with the entity.
\<close>

definition to_aml ::
  "(string \<Rightarrow> bool) \<Rightarrow> DataSchema \<Rightarrow> direction \<Rightarrow> pyvalue option \<Rightarrow> string option \<Rightarrow>
   error + (aml_entity \<times> DataSchema)" where
  "to_aml fs s as_dir v mode =
     (if v = None \<and> default_value s = None then Inl (ValueError ''Data has no value'')
      else
        (case value2uri fs (client s) (py_or v (default_value s)) of
           Inl e \<Rightarrow> Inl e
         | Inr p \<Rightarrow>
             (let dt = (if data_type s = None \<or> data_type s = Some []
                        then guess_dtype (map_option VStr p) else data_type s);
                  m = (if mode = None \<or> mode = Some []
                       then (if as_dir = AsInput then hd IO_MODES_INPUT else hd IO_MODES_OUTPUT)
                       else the mode);
                  io = \<lparr>io_path = p, io_type = dt, io_mode = m, io_description = description s\<rparr>
              in Inr (if as_dir = AsInput then Input io else Output io,
                      s\<lparr>data_type := dt\<rparr>))))"

definition no_value_msg :: string where
  "no_value_msg = ''Data has no a default value nor a passed value''"

text \<open>\<open>DataSchema.as_input\<close> and \<open>DataSchema.as_output\<close>.\<close>

definition as_input ::
  "(string \<Rightarrow> bool) \<Rightarrow> DataSchema \<Rightarrow> pyvalue option \<Rightarrow> string \<Rightarrow>
   error + (aml_entity \<times> DataSchema)" where
  "as_input fs s v mode =
     (if default_value s = None \<and> v = None then Inl (ValueError no_value_msg)
      else if mode \<notin> set IO_MODES_INPUT
      then Inl (ValueError (unsupported_mode_msg mode IO_MODES_INPUT))
      else to_aml fs s AsInput v (Some mode))"

definition as_output ::
  "(string \<Rightarrow> bool) \<Rightarrow> DataSchema \<Rightarrow> pyvalue option \<Rightarrow> string \<Rightarrow>
   error + (aml_entity \<times> DataSchema)" where
  "as_output fs s v mode =
     (if default_value s = None \<and> v = None then Inl (ValueError no_value_msg)
      else if mode \<notin> set IO_MODES_OUTPUT
      then Inl (ValueError (unsupported_mode_msg mode IO_MODES_OUTPUT))
      else to_aml fs s AsOutput v (Some mode))"

section \<open>Environment manifests (core/build\_/\_\_aml\_env.py)\<close>

datatype dep = Plain string | PipDependencies (pip: "string list")

record EnvironmentSchema =
  name :: string
  channels :: "string list option"
  dependencies :: "dep list"

text \<open>The values a diff holds; a \<open>dict\<close> is an association list in insertion order.\<close>

datatype pytype = StrType | PipDependenciesType

datatype dep_diff =
    LengthDiff nat nat
  | ItemDiff string string
  | PipDiff "string set"
  | TypeMismatch pytype pytype

datatype chan_diff =
    EmptyDict
  | MissingSelf "string list"
  | MissingOther "string list"
  | ChannelSet "string set"

datatype diff_entry =
    NameDiff string string
  | ChannelsDiff chan_diff
  | DependenciesDiff "(string \<times> dep_diff) list"

definition symmetric_difference :: "'a set \<Rightarrow> 'a set \<Rightarrow> 'a set" where
  "symmetric_difference A B = (A - B) \<union> (B - A)"

fun type_of_dep :: "dep \<Rightarrow> pytype" where
  "type_of_dep (Plain s) = StrType"
| "type_of_dep (PipDependencies ps) = PipDependenciesType"

text \<open>\<open>EnvironmentSchema._compare_channels\<close>.\<close>

definition compare_channels :: "EnvironmentSchema \<Rightarrow> EnvironmentSchema \<Rightarrow> chan_diff" where
  "compare_channels self other =
     (case (channels self, channels other) of
        (None, None) \<Rightarrow> EmptyDict
      | (None, Some oc) \<Rightarrow> MissingSelf oc
      | (Some sc, None) \<Rightarrow> MissingOther sc
      | (Some sc, Some oc) \<Rightarrow> ChannelSet (symmetric_difference (set sc) (set oc)))"

text \<open>One round of the loop of \<open>_compare_dependencies\<close>, at position \<open>i\<close>.\<close>

fun dep_step ::
  "nat \<Rightarrow> dep \<Rightarrow> dep \<Rightarrow> (string \<times> dep_diff) list \<Rightarrow> (string \<times> dep_diff) list" where
  "dep_step i (Plain s) (Plain t) diff =
     (if s \<noteq> t then AList.update (''item_'' @ str_nat i) (ItemDiff s t) diff else diff)"
| "dep_step i (PipDependencies p) (PipDependencies q) diff =
     (if p \<noteq> q
      then AList.update (''pip_'' @ str_nat i)
             (PipDiff (symmetric_difference (set p) (set q))) diff
      else diff)"
| "dep_step i self_dep other_dep diff =
     AList.update (''type_mismatch_'' @ str_nat i)
       (TypeMismatch (type_of_dep self_dep) (type_of_dep other_dep)) diff"

text \<open>The loop over \<open>enumerate(zip(self.dependencies, other.dependencies))\<close>.\<close>

fun deps_loop ::
  "nat \<Rightarrow> (dep \<times> dep) list \<Rightarrow> (string \<times> dep_diff) list \<Rightarrow> (string \<times> dep_diff) list" where
  "deps_loop i [] diff = diff"
| "deps_loop i ((self_dep, other_dep) # rest) diff =
     deps_loop (Suc i) rest (dep_step i self_dep other_dep diff)"

text \<open>\<open>EnvironmentSchema._compare_dependencies\<close>.\<close>

definition compare_dependencies ::
  "EnvironmentSchema \<Rightarrow> EnvironmentSchema \<Rightarrow> (string \<times> dep_diff) list" where
  "compare_dependencies self other =
     (let diff = (if length (dependencies self) \<noteq> length (dependencies other)
                  then AList.update ''length''
                         (LengthDiff (length (dependencies self)) (length (dependencies other))) []
                  else [])
      in deps_loop 0 (zip (dependencies self) (dependencies other)) diff)"

text \<open>\<open>EnvironmentSchema.compare\<close> and \<open>EnvironmentSchema.is_equal\<close>.\<close>

definition compare ::
  "EnvironmentSchema \<Rightarrow> EnvironmentSchema \<Rightarrow> (string \<times> diff_entry) list" where
  "compare self other =
     (let diff = (if name self \<noteq> name other
                  then AList.update ''name'' (NameDiff (name self) (name other)) []
                  else []);
          diff = (if channels self \<noteq> channels other
                  then AList.update ''channels'' (ChannelsDiff (compare_channels self other)) diff
                  else diff);
          deps_diff = compare_dependencies self other
      in if deps_diff \<noteq> []
         then AList.update ''dependencies'' (DependenciesDiff deps_diff) diff
         else diff)"

definition is_equal :: "EnvironmentSchema \<Rightarrow> EnvironmentSchema \<Rightarrow> bool" where
  "is_equal self other = (length (compare self other) = 0)"

section \<open>Environment reconciliation (core/build\_/\_\_aml\_env.py)\<close>

text \<open>
  An \<open>azure.ai.ml.entities.Environment\<close>, with the fields the reconciler sets or reads.
  \<open>'c\<close> is the type of a parsed conda document (the mapping that \<open>yaml.safe_load\<close>
  returns and that the service stores); \<open>conda_file\<close> is either such a document or the
  path of a file.
\<close>

datatype 'c conda_ref = CondaPath string | CondaDict 'c

datatype tags = TagList "string list" | TagDict "(string \<times> string) list"

record build_context =
  bc_path :: string
  dockerfile_path :: string

record 'c Environment =
  e_name :: string
  e_version :: "string option"
  e_description :: "string option"
  e_tags :: "tags option"
  e_properties :: "(string \<times> string) list option"
  e_conda_file :: "'c conda_ref option"
  e_build :: "build_context option"
  e_image :: "string option"

text \<open>What \<open>ml_client.environments.list(name=...)\<close> yields.\<close>

datatype 'a listing = NotFound | Listed "'a list"

text \<open>
  The surroundings of a reconciliation: the registry as the client lists it, the
  definitions handed to \<open>environments.create_or_update\<close> so far, the conda files on disk
  as \<open>yaml.safe_load\<close> reads them, the clock (whole seconds) at the first and at a later
  call of \<open>increment_version\<close>, and the line that \<open>input()\<close> returns.
\<close>

record 'c world =
  registry :: "string \<Rightarrow> 'c Environment listing"
  pushed :: "'c Environment list"
  conda_files :: "string \<Rightarrow> error + 'c"
  clock :: nat
  clock_after_input :: nat
  console :: string

text \<open>An \<open>Env\<close> object; \<open>conda_file_path\<close> is the text of its \<open>Path\<close>.\<close>

record Env =
  env_name :: string
  conda_file_path :: string

definition ENV_DEFAULT_IMAGE :: string where
  "ENV_DEFAULT_IMAGE = ''mcr.microsoft.com/azureml/openmpi4.1.0-ubuntu20.04:latest''"

definition ENV_DEFAULT_DESCRIPTION :: "string \<Rightarrow> string" where
  "ENV_DEFAULT_DESCRIPTION env = ''Environment created by DSML SDK v2: '' @ env"

definition ENV_DEFAULT_TAGS :: "tags option" where
  "ENV_DEFAULT_TAGS = None"

text \<open>
  The comprehension of \<open>get_latest\<close>: \<open>env.properties["azureml.labels"]\<close> is read for
  every listed environment.
\<close>

fun latest_labelled :: "'c Environment list \<Rightarrow> error + 'c Environment list" where
  "latest_labelled [] = Inr []"
| "latest_labelled (env # envs) =
     (case e_properties env of
        None \<Rightarrow> Inl (TypeError ''properties is None'')
      | Some props \<Rightarrow>
          (case map_of props ''azureml.labels'' of
             None \<Rightarrow> Inl (KeyError ''azureml.labels'')
           | Some l \<Rightarrow>
               (case latest_labelled envs of
                  Inl e \<Rightarrow> Inl e
                | Inr r \<Rightarrow> Inr (if l = ''latest'' then env # r else r))))"

text \<open>\<open>Env.get_latest\<close>: \<open>None\<close> when the service knows no such environment.\<close>

definition get_latest :: "'c world \<Rightarrow> string \<Rightarrow> error + 'c Environment option" where
  "get_latest w n =
     (case registry w n of
        NotFound \<Rightarrow> Inr None
      | Listed env_list \<Rightarrow>
          (case latest_labelled env_list of
             Inl e \<Rightarrow> Inl e
           | Inr r \<Rightarrow> (case item r 0 of Inl e \<Rightarrow> Inl e | Inr env \<Rightarrow> Inr (Some env))))"

text \<open>\<open>ml_client.environments.create_or_update(env)\<close>, as the reconciler sees it.\<close>

definition create_or_update :: "'c Environment \<Rightarrow> 'c world \<Rightarrow> 'c world" where
  "create_or_update env w = w\<lparr>pushed := pushed w @ [env]\<rparr>"

definition invalid_conda_msg :: string where
  "invalid_conda_msg =
     ''Unable to create EnvironmentSchema from conda file. Looks like it's not a valid conda file.''"

text \<open>\<open>x or d\<close> for an optional string.\<close>

definition str_or :: "string option \<Rightarrow> string \<Rightarrow> string" where
  "str_or x d = (case x of None \<Rightarrow> d | Some s \<Rightarrow> if s = [] then d else s)"

definition tags_or :: "tags option \<Rightarrow> tags option \<Rightarrow> tags option" where
  "tags_or x d =
     (case x of
        None \<Rightarrow> d
      | Some (TagList l) \<Rightarrow> if l = [] then d else x
      | Some (TagDict m) \<Rightarrow> if m = [] then d else x)"

text \<open>\<open>increment_version(latest.version)\<close>; a missing version is no string.\<close>

definition next_version :: "nat \<Rightarrow> 'c Environment \<Rightarrow> error + string" where
  "next_version now latest =
     (case e_version latest of
        None \<Rightarrow> Inl (TypeError ''version is None'')
      | Some v \<Rightarrow> increment_version now v True)"

text \<open>
  The choice of the new version. In interactive mode the prompt text is built first and
  holds the incremented version; an answer of white space only takes the incremented
  version of a second call.
\<close>

definition new_version :: "'c world \<Rightarrow> 'c Environment \<Rightarrow> bool \<Rightarrow> error + string" where
  "new_version w latest interactive =
     (if interactive
      then (case next_version (clock w) latest of
              Inl e \<Rightarrow> Inl e
            | Inr shown \<Rightarrow>
                if strip (console w) = [] then next_version (clock_after_input w) latest
                else Inr (console w))
      else next_version (clock w) latest)"

text \<open>
  \<open>Env.get_create_or_update\<close>. \<open>validate_schema\<close> is the construction
  \<open>EnvironmentSchema(**conda)\<close>, \<open>None\<close> where it raises \<open>ValidationError\<close>. The
  parameter \<open>create_version\<close> is accepted and never read.
\<close>

definition get_create_or_update ::
  "('c \<Rightarrow> EnvironmentSchema option) \<Rightarrow> Env \<Rightarrow> string option \<Rightarrow> string option \<Rightarrow>
   string option \<Rightarrow> tags option \<Rightarrow> bool \<Rightarrow> 'c world \<Rightarrow>
   (error + 'c Environment) \<times> 'c world" where
  "get_create_or_update validate_schema self create_version create_image create_description
     create_tags interactive w =
     (case get_latest w (env_name self) of
        Inl e \<Rightarrow> (Inl e, w)
      | Inr None \<Rightarrow>
          (let new_env =
                 \<lparr>e_name = env_name self,
                  e_version = None,
                  e_description =
                    Some (str_or create_description (ENV_DEFAULT_DESCRIPTION (env_name self))),
                  e_tags = tags_or create_tags ENV_DEFAULT_TAGS,
                  e_properties = None,
                  e_conda_file = Some (CondaPath (conda_file_path self)),
                  e_build = None,
                  e_image = Some (str_or create_image ENV_DEFAULT_IMAGE)\<rparr>
           in (Inr new_env, create_or_update new_env w))
      | Inr (Some latest) \<Rightarrow>
          (case conda_files w (conda_file_path self) of
             Inl e \<Rightarrow> (Inl e, w)
           | Inr local_conda \<Rightarrow>
          (case e_conda_file latest of
             None \<Rightarrow> (Inl (AttributeError ''copy''), w)
           | Some (CondaPath p) \<Rightarrow> (Inl (AttributeError ''copy''), w)
           | Some (CondaDict remote_conda) \<Rightarrow>
          (case validate_schema local_conda of
             None \<Rightarrow> (Inl (ValueError invalid_conda_msg), w)
           | Some local_schema \<Rightarrow>
          (case validate_schema remote_conda of
             None \<Rightarrow> (Inl (ValueError invalid_conda_msg), w)
           | Some remote_schema \<Rightarrow>
               if \<not> is_equal remote_schema local_schema
               then (case new_version w latest interactive of
                       Inl e \<Rightarrow> (Inl e, w)
                     | Inr v \<Rightarrow>
                         (let updated_env =
                                \<lparr>e_name = env_name self,
                                 e_version = Some v,
                                 e_description = e_description latest,
                                 e_tags = e_tags latest,
                                 e_properties = e_properties latest,
                                 e_conda_file = Some (CondaDict local_conda),
                                 e_build = e_build latest,
                                 e_image = e_image latest\<rparr>
                          in (Inr updated_env, create_or_update updated_env w)))
               else (Inr latest, w))))))"

section \<open>A small schema and client, used to run the data helpers\<close>

definition example_client :: ml_client where
  "example_client =
     \<lparr>subscription_id = ''sub-01'', resource_group_name = ''rg-ml'',
      workspace_name = ''ws-dev''\<rparr>"

definition example_environ :: "string \<rightharpoonup> string" where
  "example_environ =
     [''SUBSCRIPTION_ID'' \<mapsto> ''sub-01'', ''RESOURCE_GROUP'' \<mapsto> ''rg-ml'',
      ''WORKSPACE_NAME'' \<mapsto> ''ws-dev'']"

text \<open>A file system on which no queried path exists.\<close>

definition no_local_paths :: "string \<Rightarrow> bool" where
  "no_local_paths p = False"

definition example_schema :: DataSchema where
  "example_schema =
     \<lparr>default_value = Some (VStr ''azureml:foo/bar''), data_type = Some ''uri_folder'',
      description = None, client = example_client\<rparr>"

definition example_schema_no_default :: DataSchema where
  "example_schema_no_default =
     \<lparr>default_value = None, data_type = Some ''uri_file'',
      description = None, client = example_client\<rparr>"

section \<open>A small registry, used to run the reconciler\<close>

definition example_manifest :: EnvironmentSchema where
  "example_manifest =
     \<lparr>name = ''sdk2-env'', channels = Some [''conda-forge''],
      dependencies = [Plain ''python=3.10'', Plain ''pip'', PipDependencies [''numpy'']]\<rparr>"


definition example_latest :: "EnvironmentSchema Environment" where
  "example_latest =
     \<lparr>e_name = ''sdk2-env'', e_version = Some ''1.2.3'',
      e_description = Some ''basic env'',
      e_tags = Some (TagDict [(''team'', ''ds'')]),
      e_properties = Some [(''azureml.labels'', ''latest'')],
      e_conda_file = Some (CondaDict example_manifest),
      e_build = None,
      e_image = Some ENV_DEFAULT_IMAGE\<rparr>"

definition example_older :: "EnvironmentSchema Environment" where
  "example_older =
     example_latest\<lparr>e_version := Some ''1.2.2'', e_properties := Some [(''azureml.labels'', '''')]\<rparr>"

definition example_env :: Env where
  "example_env = \<lparr>env_name = ''sdk2-env'', conda_file_path = ''./conda_dependencies.yaml''\<rparr>"

text \<open>A world whose conda file on disk holds the document \<open>doc\<close>.\<close>

definition example_world :: "EnvironmentSchema \<Rightarrow> EnvironmentSchema world" where
  "example_world doc =
     \<lparr>registry = (\<lambda>n. if n = ''sdk2-env'' then Listed [example_older, example_latest]
                         else NotFound),
      pushed = [],
      conda_files = (\<lambda>p. if p = ''./conda_dependencies.yaml'' then Inr doc
                            else Inl (ValueError ''no such file'')),
      clock = 1730646000,
      clock_after_input = 1730646060,
      console = ''''\<rparr>"



section \<open>Facts about the decimal conversions\<close>

lemma str_nat_small: "n < 10 \<Longrightarrow> str_nat n = [digit_char n]"
  by (simp add: str_nat.simps)





lemmas version_eval =
  increment_version_def re_match_version_def isdigit_def str_isdigit_def py_int_def
  int_strip_def int_space_def nat_of_digits_def digit_val_def str_int_def digit_char_def
  str_nat_small Let_def











text \<open>A separator character before the digits is no white space for \<open>int()\<close>.\<close>

lemma py_int_separator:
  "py_int [CHR 0x1F, CHR ''4''] = Inl (InvalidLiteral [CHR 0x1F, CHR ''4''])"
  "increment_version now (''1.2.3.'' @ [CHR 0x1F, CHR ''4'']) True =
     Inl (InvalidLiteral [CHR 0x1F, CHR ''4''])"
  by (simp_all add: version_eval)



section \<open>Facts about splitting a short reference\<close>

lemma split_on_no_sep: "c \<notin> set s \<Longrightarrow> split_on c s = [s]"
  by (induction s) auto

lemma split_on_first: "c \<notin> set a \<Longrightarrow> split_on c (a @ c # rest) = a # split_on c rest"
  by (induction a) auto

lemma split_on_nonempty: "split_on c s \<noteq> []"
  by (induction s) (auto split: list.splits)

lemma hd_split_on_Cons: "x \<noteq> c \<Longrightarrow> hd (split_on c (x # r)) = x # hd (split_on c r)"
  using split_on_nonempty [of c r] by (auto split: list.splits)

lemma takeWhile_first: "c \<notin> set a \<Longrightarrow> takeWhile (\<lambda>x. x \<noteq> c) (a @ c # rest) = a"
  by (induction a) auto

lemma startswith_slash: "startswith p ''/'' \<longleftrightarrow> p \<noteq> [] \<and> hd p = CHR ''/''"
  by (cases p) (simp_all add: startswith_def)

lemma item_split_on_first:
  assumes "c \<notin> set a"
  shows "item (split_on c (a @ c # rest)) 0 = Inr a"
    and "item (split_on c (a @ c # rest)) (Suc 0) = Inr (hd (split_on c rest))"
proof -
  obtain b ps where "split_on c rest = b # ps"
    using split_on_nonempty [of c rest] by (cases "split_on c rest") auto
  with assms show "item (split_on c (a @ c # rest)) 0 = Inr a"
    and "item (split_on c (a @ c # rest)) (Suc 0) = Inr (hd (split_on c rest))"
    by (simp_all add: split_on_first item_def)
qed

text \<open>What the two resolvers compute on a reference \<open>a:rest\<close> whose \<open>a\<close> has no colon.\<close>

lemma get_aml_uri_parts:
  assumes "CHR '':'' \<notin> set a"
    and "environ ''SUBSCRIPTION_ID'' = Some subs"
    and "environ ''RESOURCE_GROUP'' = Some rg"
    and "environ ''WORKSPACE_NAME'' = Some ws"
  shows "get_aml_uri environ (a @ CHR '':'' # rest) =
         Inr (aml_uri subs rg ws (strip a)
                (if startswith (strip (hd (split_on CHR '':'' rest))) ''/''
                 then drop 1 (strip (hd (split_on CHR '':'' rest)))
                 else strip (hd (split_on CHR '':'' rest))))"
  using assms
  by (simp add: get_aml_uri_def item_split_on_first environ_get_def Let_def)

lemma get_ds_uri_parts:
  assumes "CHR '':'' \<notin> set a"
  shows "get_ds_uri c (a @ CHR '':'' # rest) =
         Inr (aml_uri (subscription_id c) (resource_group_name c) (workspace_name c) a
                (if startswith (hd (split_on CHR '':'' rest)) ''/''
                 then drop 1 (hd (split_on CHR '':'' rest))
                 else hd (split_on CHR '':'' rest)))"
proof (cases rest)
  case Nil
  with assms show ?thesis
    using item_split_on_first [OF assms, of "[]"]
    by (simp add: get_ds_uri_def takeWhile_first Let_def startswith_slash)
next
  case (Cons x r)
  show ?thesis
  proof (cases "x = CHR ''/''")
    case True
    have b: "hd (split_on CHR '':'' (CHR ''/'' # r)) = CHR ''/'' # hd (split_on CHR '':'' r)"
      by (rule hd_split_on_Cons) simp
    from True Cons assms b show ?thesis
      using item_split_on_first [OF assms, of r]
      by (simp add: get_ds_uri_def takeWhile_first Let_def startswith_slash nth_append
          del: split_on.simps)
  next
    case False
    have b: "hd (split_on CHR '':'' (x # r)) = [] \<or> hd (hd (split_on CHR '':'' (x # r))) = x"
      using split_on_nonempty [of "CHR '':''" r] by (auto split: list.splits)
    from False Cons assms b show ?thesis
      using item_split_on_first [OF assms, of "x # r"]
      by (auto simp add: get_ds_uri_def takeWhile_first Let_def startswith_slash nth_append
          simp del: split_on.simps)
  qed
qed

lemma resolvers_agree_parts:
  assumes "CHR '':'' \<notin> set a"
    and "environ ''SUBSCRIPTION_ID'' = Some (subscription_id c)"
    and "environ ''RESOURCE_GROUP'' = Some (resource_group_name c)"
    and "environ ''WORKSPACE_NAME'' = Some (workspace_name c)"
    and "strip a = a"
    and "strip (hd (split_on CHR '':'' rest)) = hd (split_on CHR '':'' rest)"
  shows "get_aml_uri environ (a @ CHR '':'' # rest) = get_ds_uri c (a @ CHR '':'' # rest)"
  using assms by (simp add: get_aml_uri_parts get_ds_uri_parts)

text \<open>
  C9, as amended: the module-level \<open>get_aml_uri\<close> and the schema's \<open>__get_ds_uri\<close>
  give the same URI for every short reference with a colon whose store name (the text
  before the first colon) and path (the text between the first and the second colon)
  carry no leading or trailing white space, whenever the ambient identifiers agree and
  wherever the slashes after the colon stand; and \<open>__get_ds_uri\<close> does return one.
\<close>

theorem resolvers_agree_without_whitespace:
  "environ ''SUBSCRIPTION_ID'' = Some (subscription_id c) \<and>
   environ ''RESOURCE_GROUP'' = Some (resource_group_name c) \<and>
   environ ''WORKSPACE_NAME'' = Some (workspace_name c) \<and>
   item (split_on CHR '':'' s) 0 = Inr a \<and>
   item (split_on CHR '':'' s) 1 = Inr b \<and>
   strip a = a \<and> strip b = b \<longrightarrow>
     get_aml_uri environ s = get_ds_uri c s \<and> (\<exists>u. get_ds_uri c s = Inr u)"
proof (intro impI, elim conjE)
  assume env: "environ ''SUBSCRIPTION_ID'' = Some (subscription_id c)"
    "environ ''RESOURCE_GROUP'' = Some (resource_group_name c)"
    "environ ''WORKSPACE_NAME'' = Some (workspace_name c)"
  assume i0: "item (split_on CHR '':'' s) 0 = Inr a"
  assume i1: "item (split_on CHR '':'' s) 1 = Inr b"
  assume clean: "strip a = a" "strip b = b"
  have "CHR '':'' \<in> set s"
  proof (rule ccontr)
    assume "CHR '':'' \<notin> set s"
    then have "split_on CHR '':'' s = [s]" by (rule split_on_no_sep)
    with i1 show False by (simp add: item_def)
  qed
  then obtain a' rest where s: "s = a' @ CHR '':'' # rest" and a': "CHR '':'' \<notin> set a'"
    by (auto dest: split_list_first)
  from item_split_on_first [OF a', of rest] i0 i1 s
  have ab: "a = a'" "b = hd (split_on CHR '':'' rest)" by simp_all
  from resolvers_agree_parts [OF a' env, of rest] clean ab s
  have "get_aml_uri environ s = get_ds_uri c s" by simp
  moreover from get_ds_uri_parts [OF a', of c rest] s
  have "\<exists>u. get_ds_uri c s = Inr u" by simp
  ultimately show "get_aml_uri environ s = get_ds_uri c s \<and> (\<exists>u. get_ds_uri c s = Inr u)"
    by simp
qed

theorem resolvers_agree_without_whitespace_witness:
  "get_aml_uri example_environ ''teststorage:/data/laptops.csv'' =
     get_ds_uri example_client ''teststorage:/data/laptops.csv'' \<and>
   get_ds_uri example_client ''teststorage:/data/laptops.csv'' =
     Inr ''azureml://subscriptions/sub-01/resourcegroups/rg-ml/workspaces/ws-dev/datastores/teststorage/paths/data/laptops.csv''"
proof -
  have env: "example_environ ''SUBSCRIPTION_ID'' = Some (subscription_id example_client)"
    "example_environ ''RESOURCE_GROUP'' = Some (resource_group_name example_client)"
    "example_environ ''WORKSPACE_NAME'' = Some (workspace_name example_client)"
    by (simp_all add: example_environ_def example_client_def)
  have parts: "item (split_on CHR '':'' ''teststorage:/data/laptops.csv'') 0 = Inr ''teststorage''"
    "item (split_on CHR '':'' ''teststorage:/data/laptops.csv'') 1 = Inr ''/data/laptops.csv''"
    by (simp_all add: item_def)
  have clean: "strip ''teststorage'' = ''teststorage''"
    "strip ''/data/laptops.csv'' = ''/data/laptops.csv''"
    by (simp_all add: strip_def isspace_def)
  have out: "get_ds_uri example_client ''teststorage:/data/laptops.csv'' =
     Inr ''azureml://subscriptions/sub-01/resourcegroups/rg-ml/workspaces/ws-dev/datastores/teststorage/paths/data/laptops.csv''"
    by (simp add: get_ds_uri_def item_def aml_uri_def example_client_def)
  from resolvers_agree_without_whitespace
    [of example_environ example_client "''teststorage:/data/laptops.csv''"
        "''teststorage''" "''/data/laptops.csv''"]
    env parts clean out
  show ?thesis by simp
qed

text \<open>
  C9 as stated fails: on a reference with a blank after the colon (the form that the
  docstring of \<open>get_aml_uri\<close> shows) \<open>get_aml_uri\<close> strips the blank and
  \<open>__get_ds_uri\<close> keeps it in the path, although the ambient identifiers agree.
\<close>

theorem resolvers_differ_on_whitespace:
  "example_environ ''SUBSCRIPTION_ID'' = Some (subscription_id example_client) \<and>
   example_environ ''RESOURCE_GROUP'' = Some (resource_group_name example_client) \<and>
   example_environ ''WORKSPACE_NAME'' = Some (workspace_name example_client) \<and>
   CHR '':'' \<in> set ''teststorage: data/laptops.csv'' \<and>
   get_aml_uri example_environ ''teststorage: data/laptops.csv'' =
     Inr ''azureml://subscriptions/sub-01/resourcegroups/rg-ml/workspaces/ws-dev/datastores/teststorage/paths/data/laptops.csv'' \<and>
   get_ds_uri example_client ''teststorage: data/laptops.csv'' =
     Inr ''azureml://subscriptions/sub-01/resourcegroups/rg-ml/workspaces/ws-dev/datastores/teststorage/paths/ data/laptops.csv'' \<and>
   get_aml_uri example_environ ''teststorage: data/laptops.csv'' \<noteq>
     get_ds_uri example_client ''teststorage: data/laptops.csv''"
  by (simp add: get_aml_uri_def get_ds_uri_def item_def strip_def isspace_def startswith_def
      environ_get_def aml_uri_def example_environ_def example_client_def)

section \<open>Facts about data schemas\<close>

lemma value2uri_returns: "\<exists>p. value2uri fs c v = Inr p"
proof (cases v)
  case None
  then show ?thesis by (simp add: value2uri_def)
next
  case (Some x)
  show ?thesis
  proof (cases x)
    case (VStr t)
    show ?thesis
    proof (cases "CHR '':'' \<in> set t")
      case True
      then obtain a rest where "t = a @ CHR '':'' # rest" "CHR '':'' \<notin> set a"
        by (auto dest: split_list_first)
      then have "\<exists>u. get_ds_uri c t = Inr u"
        using get_ds_uri_parts [of a c rest] by simp
      with Some VStr show ?thesis by (auto simp: value2uri_def)
    next
      case False
      with Some VStr show ?thesis by (simp add: value2uri_def)
    qed
  qed (simp_all add: Some value2uri_def)
qed

text \<open>With a mode of the direction and a value at hand, the entity is built.\<close>

lemma as_input_returns:
  assumes "\<not> (default_value s = None \<and> v = None)" and "m \<in> set IO_MODES_INPUT"
  shows "\<exists>r. as_input fs s v m = Inr r"
proof -
  obtain p where "value2uri fs (client s) (py_or v (default_value s)) = Inr p"
    using value2uri_returns by blast
  with assms show ?thesis
    by (auto simp: as_input_def to_aml_def Let_def)
qed

lemma as_output_returns:
  assumes "\<not> (default_value s = None \<and> v = None)" and "m \<in> set IO_MODES_OUTPUT"
  shows "\<exists>r. as_output fs s v m = Inr r"
proof -
  obtain p where "value2uri fs (client s) (py_or v (default_value s)) = Inr p"
    using value2uri_returns by blast
  with assms show ?thesis
    by (auto simp: as_output_def to_aml_def Let_def)
qed

text \<open>Without a passed value and without a default, both accessors raise first.\<close>

lemma no_value_raises:
  "default_value s = None \<Longrightarrow>
   as_input fs s None m = Inl (ValueError no_value_msg) \<and>
   as_output fs s None m = Inl (ValueError no_value_msg)"
  by (simp add: as_input_def as_output_def)

text \<open>A passed value that counts as true decides the entity, whatever the default is.\<close>

lemma truthy_value_overrides:
  assumes "truthy x"
  shows "map_sum id fst (as_input fs s (Some x) m) =
         map_sum id fst (as_input fs (s\<lparr>default_value := d\<rparr>) (Some x) m)"
    and "map_sum id fst (as_output fs s (Some x) m) =
         map_sum id fst (as_output fs (s\<lparr>default_value := d\<rparr>) (Some x) m)"
  using assms
  by (auto simp: as_input_def as_output_def to_aml_def py_or_def Let_def split: sum.splits)

lemmas schema_eval =
  as_input_def as_output_def to_aml_def value2uri_def py_or_def has_uri_prefix_def
  uri_prefixes_def startswith_def IO_MODES_INPUT_def IO_MODES_OUTPUT_def
  example_schema_def example_schema_no_default_def no_local_paths_def Let_def

text \<open>
  What the guessing path of \<open>__to_aml\<close> does on a schema object without a type (such
  an object does not pass the constructor): a qualified \<open>azureml:\<close> string gets a file
  or folder type, while a boolean or a number is first turned into \<open>None\<close> by
  \<open>__value2uri\<close>, so that no type is found for it.
\<close>

lemma to_aml_untyped:
  "map_sum id fst (to_aml no_local_paths (example_schema\<lparr>data_type := None\<rparr>) AsInput
     (Some (VStr ''azureml:foo/bar.csv'')) None) =
     Inr (Input \<lparr>io_path = Some ''azureml:foo/bar.csv'', io_type = Some ''uri_file'',
                 io_mode = ''ro_mount'', io_description = None\<rparr>)"
  "map_sum id fst (to_aml no_local_paths (example_schema\<lparr>data_type := None\<rparr>) AsInput
     (Some (VBool True)) None) =
     Inr (Input \<lparr>io_path = None, io_type = None,
                 io_mode = ''ro_mount'', io_description = None\<rparr>)"
  "map_sum id fst (to_aml no_local_paths (example_schema\<lparr>data_type := None\<rparr>) AsInput
     (Some (VInt 7)) None) =
     Inr (Input \<lparr>io_path = None, io_type = None,
                 io_mode = ''ro_mount'', io_description = None\<rparr>)"
  by (simp_all add: schema_eval)

text \<open>
  C1: a \<open>DataSchema\<close> constructed with no declared type. The constructor's assertion
  refuses \<open>data_type = None\<close>, with any default value, description and client, so no
  schema without a type comes out of it and no type is ever inferred.
\<close>

theorem untyped_schema_rejected:
  "DataSchema_init gc None (Some (VStr ''azureml:foo/bar.csv'')) None (Some example_client) =
     Inl (AssertionError (unsupported_type_msg None)) \<and>
   (\<forall>dflt descr c. DataSchema_init gc None dflt descr (Some c) =
      Inl (AssertionError (unsupported_type_msg None))) \<and>
   (\<forall>dflt descr mc s. DataSchema_init gc None dflt descr mc \<noteq> Inr s)"
  by (auto simp: DataSchema_init_def validate_def split: option.splits sum.splits)

text \<open>
  C6, as amended: \<open>as_input\<close> returns an entity only for a mode in
  \<open>['ro_mount', 'download', 'direct', 'rw_mount']\<close> and \<open>as_output\<close> only for a mode in
  \<open>['rw_mount', 'upload', 'direct']\<close> (the first of each list is the default of the
  signature); when a value is at hand (passed or default), any other mode raises the
  \<open>ValueError\<close> whose message ends with the list allowed for that direction; when
  neither a value nor a default is present, the error about the missing value is raised
  first, whatever the mode.
\<close>

theorem mode_validation:
  "(as_input fs s v mi = Inr r \<longrightarrow> mi \<in> set IO_MODES_INPUT) \<and>
   (as_output fs s v mo = Inr r' \<longrightarrow> mo \<in> set IO_MODES_OUTPUT) \<and>
   (\<not> (default_value s = None \<and> v = None) \<and> m \<notin> set IO_MODES_INPUT \<longrightarrow>
      as_input fs s v m = Inl (ValueError (unsupported_mode_msg m IO_MODES_INPUT))) \<and>
   (\<not> (default_value s = None \<and> v = None) \<and> m' \<notin> set IO_MODES_OUTPUT \<longrightarrow>
      as_output fs s v m' = Inl (ValueError (unsupported_mode_msg m' IO_MODES_OUTPUT))) \<and>
   (\<exists>pre. unsupported_mode_msg m IO_MODES_INPUT = pre @ repr_list IO_MODES_INPUT) \<and>
   (\<exists>pre. unsupported_mode_msg m' IO_MODES_OUTPUT = pre @ repr_list IO_MODES_OUTPUT) \<and>
   hd IO_MODES_INPUT = ''ro_mount'' \<and> hd IO_MODES_OUTPUT = ''rw_mount'' \<and>
   IO_MODES_INPUT = [''ro_mount'', ''download'', ''direct'', ''rw_mount''] \<and>
   IO_MODES_OUTPUT = [''rw_mount'', ''upload'', ''direct''] \<and>
   (default_value s0 = None \<longrightarrow>
      as_input fs s0 None m = Inl (ValueError no_value_msg) \<and>
      as_output fs s0 None m' = Inl (ValueError no_value_msg))"
proof -
  have "as_input fs s v mi = Inr r \<longrightarrow> mi \<in> set IO_MODES_INPUT"
    by (auto simp: as_input_def split: if_splits)
  moreover have "as_output fs s v mo = Inr r' \<longrightarrow> mo \<in> set IO_MODES_OUTPUT"
    by (auto simp: as_output_def split: if_splits)
  moreover have "\<not> (default_value s = None \<and> v = None) \<and> m \<notin> set IO_MODES_INPUT \<longrightarrow>
      as_input fs s v m = Inl (ValueError (unsupported_mode_msg m IO_MODES_INPUT))"
    by (auto simp: as_input_def)
  moreover have "\<not> (default_value s = None \<and> v = None) \<and> m' \<notin> set IO_MODES_OUTPUT \<longrightarrow>
      as_output fs s v m' = Inl (ValueError (unsupported_mode_msg m' IO_MODES_OUTPUT))"
    by (auto simp: as_output_def)
  moreover have "\<exists>pre. unsupported_mode_msg m IO_MODES_INPUT = pre @ repr_list IO_MODES_INPUT"
    unfolding unsupported_mode_msg_def by (metis append.assoc)
  moreover have "\<exists>pre. unsupported_mode_msg m' IO_MODES_OUTPUT = pre @ repr_list IO_MODES_OUTPUT"
    unfolding unsupported_mode_msg_def by (metis append.assoc)
  moreover have "default_value s0 = None \<longrightarrow>
      as_input fs s0 None m = Inl (ValueError no_value_msg) \<and>
      as_output fs s0 None m' = Inl (ValueError no_value_msg)"
    using no_value_raises [of s0 fs] by blast
  ultimately show ?thesis
    by (simp add: IO_MODES_INPUT_def IO_MODES_OUTPUT_def)
qed

theorem mode_validation_witness:
  "as_input no_local_paths example_schema None ''download'' =
     Inr (Input \<lparr>io_path = Some ''azureml:foo/bar'', io_type = Some ''uri_folder'',
                 io_mode = ''download'', io_description = None\<rparr>, example_schema) \<and>
   ''download'' \<in> set IO_MODES_INPUT \<and>
   as_output no_local_paths example_schema None ''upload'' =
     Inr (Output \<lparr>io_path = Some ''azureml:foo/bar'', io_type = Some ''uri_folder'',
                  io_mode = ''upload'', io_description = None\<rparr>, example_schema) \<and>
   ''upload'' \<in> set IO_MODES_OUTPUT \<and>
   as_input no_local_paths example_schema None ''upload'' =
     Inl (ValueError (''Unsupported mode: upload. '' @ [CHR 0x0A, CHR 0x09] @
            ''Must be one of: ['ro_mount', 'download', 'direct', 'rw_mount']'')) \<and>
   as_output no_local_paths example_schema None ''ro_mount'' =
     Inl (ValueError (''Unsupported mode: ro_mount. '' @ [CHR 0x0A, CHR 0x09] @
            ''Must be one of: ['rw_mount', 'upload', 'direct']'')) \<and>
   default_value example_schema_no_default = None \<and>
   as_input no_local_paths example_schema_no_default None ''upload'' =
     Inl (ValueError ''Data has no a default value nor a passed value'') \<and>
   as_output no_local_paths example_schema_no_default None ''ro_mount'' =
     Inl (ValueError ''Data has no a default value nor a passed value'')"
proof -
  let ?i = "(Input \<lparr>io_path = Some ''azureml:foo/bar'', io_type = Some ''uri_folder'',
                    io_mode = ''download'', io_description = None\<rparr>, example_schema)"
  let ?o = "(Output \<lparr>io_path = Some ''azureml:foo/bar'', io_type = Some ''uri_folder'',
                     io_mode = ''upload'', io_description = None\<rparr>, example_schema)"
  have ok_in: "as_input no_local_paths example_schema None ''download'' = Inr ?i"
    by (simp add: schema_eval)
  have ok_out: "as_output no_local_paths example_schema None ''upload'' = Inr ?o"
    by (simp add: schema_eval)
  have bad: "''upload'' \<notin> set IO_MODES_INPUT" "''ro_mount'' \<notin> set IO_MODES_OUTPUT"
    by (simp_all add: IO_MODES_INPUT_def IO_MODES_OUTPUT_def)
  have val: "\<not> (default_value example_schema = None \<and> (None :: pyvalue option) = None)"
    by (simp add: example_schema_def)
  have nodef: "default_value example_schema_no_default = None"
    by (simp add: example_schema_no_default_def)
  have msg: "unsupported_mode_msg ''upload'' IO_MODES_INPUT =
      ''Unsupported mode: upload. '' @ [CHR 0x0A, CHR 0x09] @
      ''Must be one of: ['ro_mount', 'download', 'direct', 'rw_mount']''"
    "unsupported_mode_msg ''ro_mount'' IO_MODES_OUTPUT =
      ''Unsupported mode: ro_mount. '' @ [CHR 0x0A, CHR 0x09] @
      ''Must be one of: ['rw_mount', 'upload', 'direct']''"
    by (simp_all add: unsupported_mode_msg_def repr_list_def repr_str_def IO_MODES_INPUT_def
        IO_MODES_OUTPUT_def)
  from mode_validation
    [of no_local_paths example_schema None "''download''" ?i "''upload''" ?o
        "''upload''" "''ro_mount''" example_schema_no_default]
    ok_in ok_out bad val msg nodef
  show ?thesis by (simp add: no_value_msg_def)
qed

text \<open>
  C6 as stated fails: with neither a passed value nor a default, a mode outside the
  allowed list raises the error about the missing value, whose message names no mode.
\<close>

theorem mode_error_after_value_check:
  "''turbo'' \<notin> set IO_MODES_INPUT \<and>
   as_input no_local_paths example_schema_no_default None ''turbo'' =
     Inl (ValueError ''Data has no a default value nor a passed value'') \<and>
   as_input no_local_paths example_schema_no_default None ''turbo'' \<noteq>
     Inl (ValueError (unsupported_mode_msg ''turbo'' IO_MODES_INPUT))"
  by (simp add: as_input_def example_schema_no_default_def IO_MODES_INPUT_def no_value_msg_def
      unsupported_mode_msg_def)

text \<open>
  C7, as amended: type inference puts the boolean check first; a string that starts
  with \<open>azureml:\<close> is classified as \<open>uri_file\<close> when it contains a dot and as
  \<open>uri_folder\<close> otherwise; every other string, the ones with the prefixes \<open>https://\<close>,
  \<open>http://\<close>, \<open>wasbs://\<close>, \<open>abfss://\<close> and \<open>adl://\<close> included, is classified as
  \<open>string\<close>; floats and integers map to \<open>number\<close> and \<open>integer\<close>.
\<close>

theorem guess_dtype_spec:
  "guess_dtype (Some (VBool b)) = Some ''boolean'' \<and>
   (startswith s ''azureml:'' \<longrightarrow>
      guess_dtype (Some (VStr s)) =
        Some (if CHR ''.'' \<in> set s then ''uri_file'' else ''uri_folder'')) \<and>
   (\<not> startswith t ''azureml:'' \<longrightarrow> guess_dtype (Some (VStr t)) = Some ''string'') \<and>
   guess_dtype (Some (VFloat x)) = Some ''number'' \<and>
   guess_dtype (Some (VInt i)) = Some ''integer''"
  by simp

theorem guess_dtype_spec_witness:
  "guess_dtype (Some (VStr ''azureml:foo/bar.csv'')) = Some ''uri_file'' \<and>
   guess_dtype (Some (VStr ''plain text'')) = Some ''string'' \<and>
   guess_dtype (Some (VBool True)) = Some ''boolean'' \<and>
   guess_dtype (Some (VFloat 3.14)) = Some ''number'' \<and>
   guess_dtype (Some (VInt 7)) = Some ''integer''"
proof -
  have a: "startswith ''azureml:foo/bar.csv'' ''azureml:''"
    by (simp add: startswith_def)
  have b: "\<not> startswith ''plain text'' ''azureml:''"
    by (simp add: startswith_def)
  have dot: "CHR ''.'' \<in> set ''azureml:foo/bar.csv''" by simp
  from guess_dtype_spec [of True "''azureml:foo/bar.csv''" "''plain text''" "3.14" 7] a b dot
  show ?thesis by simp
qed

text \<open>
  C7 as stated fails: a string with the qualified prefix \<open>https://\<close> and a dot is
  classified as \<open>string\<close>, not as \<open>uri_file\<close>.
\<close>

theorem https_value_is_string:
  "has_uri_prefix ''https://acct.blob.core.windows.net/c/data.csv'' \<and>
   CHR ''.'' \<in> set ''https://acct.blob.core.windows.net/c/data.csv'' \<and>
   guess_dtype (Some (VStr ''https://acct.blob.core.windows.net/c/data.csv'')) = Some ''string'' \<and>
   guess_dtype (Some (VStr ''https://acct.blob.core.windows.net/c/data.csv'')) \<noteq> Some ''uri_file''"
  by (simp add: has_uri_prefix_def uri_prefixes_def startswith_def)

text \<open>
  C8: a passed value that is the empty string, zero or \<open>False\<close> does not override the
  default: \<open>value or self.default_value\<close> takes the default, and the entity built is
  the one built when no value is passed at all.
\<close>

theorem falsy_value_keeps_default:
  "as_input no_local_paths example_schema (Some (VStr [])) ''ro_mount'' =
     Inr (Input \<lparr>io_path = Some ''azureml:foo/bar'', io_type = Some ''uri_folder'',
                 io_mode = ''ro_mount'', io_description = None\<rparr>, example_schema) \<and>
   as_input no_local_paths example_schema (Some (VInt 0)) ''ro_mount'' =
     as_input no_local_paths example_schema None ''ro_mount'' \<and>
   as_input no_local_paths example_schema (Some (VBool False)) ''ro_mount'' =
     as_input no_local_paths example_schema None ''ro_mount'' \<and>
   as_input no_local_paths example_schema (Some (VStr [])) ''ro_mount'' =
     as_input no_local_paths example_schema None ''ro_mount'' \<and>
   as_output no_local_paths example_schema (Some (VStr [])) ''rw_mount'' =
     Inr (Output \<lparr>io_path = Some ''azureml:foo/bar'', io_type = Some ''uri_folder'',
                  io_mode = ''rw_mount'', io_description = None\<rparr>, example_schema)"
  by (simp add: schema_eval)

section \<open>Facts about manifest comparison\<close>

lemma dep_step_same: "dep_step i d d diff = diff"
  by (cases d) simp_all

lemma deps_loop_same: "deps_loop i (zip xs xs) diff = diff"
  by (induction xs arbitrary: i) (simp_all add: dep_step_same)

lemma compare_dependencies_same:
  "dependencies a = dependencies b \<Longrightarrow> compare_dependencies a b = []"
  by (simp add: compare_dependencies_def deps_loop_same)

lemma compare_same:
  assumes "name a = name b" and "channels a = channels b"
    and "dependencies a = dependencies b"
  shows "compare a b = []"
  using assms by (simp add: compare_def compare_dependencies_same)

lemma deps_loop_single_change:
  "i < length xs \<Longrightarrow> xs ! i = Plain x \<Longrightarrow> x \<noteq> y \<Longrightarrow>
   deps_loop k (zip xs (xs[i := Plain y])) [] = [(''item_'' @ str_nat (k + i), ItemDiff x y)]"
proof (induction xs arbitrary: i k)
  case Nil
  then show ?case by simp
next
  case (Cons d ds)
  show ?case
  proof (cases i)
    case 0
    with Cons.prems have "d = Plain x" by simp
    with 0 Cons.prems(3) show ?thesis by (simp add: deps_loop_same)
  next
    case (Suc j)
    with Cons.prems have j: "j < length ds" "ds ! j = Plain x" by simp_all
    from Cons.IH [OF j Cons.prems(3), of "Suc k"] Suc show ?thesis
      by (simp add: dep_step_same)
  qed
qed

lemma compare_single_change:
  assumes "i < length (dependencies a)" and "dependencies a ! i = Plain x" and "x \<noteq> y"
  shows "compare a (a\<lparr>dependencies := (dependencies a)[i := Plain y]\<rparr>) =
         [(''dependencies'', DependenciesDiff [(''item_'' @ str_nat i, ItemDiff x y)])]"
proof -
  have "compare_dependencies a (a\<lparr>dependencies := (dependencies a)[i := Plain y]\<rparr>) =
        [(''item_'' @ str_nat i, ItemDiff x y)]"
    using deps_loop_single_change [OF assms, of 0] by (simp add: compare_dependencies_def)
  then show ?thesis by (simp add: compare_def)
qed

lemma compare_reordered_channels:
  assumes "name a = name b" and "dependencies a = dependencies b"
    and "channels a = Some ca" and "channels b = Some cb"
    and "set ca = set cb" and "ca \<noteq> cb"
  shows "compare a b = [(''channels'', ChannelsDiff (ChannelSet {}))]"
  using assms
  by (simp add: compare_def compare_dependencies_same compare_channels_def
      symmetric_difference_def)

text \<open>
  C2: two manifests with the same name, the same channels and the same dependency
  sequence (nested pip groups included) have an empty diff and are equal; changing one
  plain dependency entry, at position \<open>i\<close>, gives a diff whose only entry, under
  \<open>dependencies\<close>, is keyed \<open>item_i\<close> and holds the two differing entries.
\<close>

theorem compare_identical_and_single_change:
  "(name a = name b \<and> channels a = channels b \<and> dependencies a = dependencies b \<longrightarrow>
      compare a b = [] \<and> is_equal a b) \<and>
   (i < length (dependencies a) \<and> dependencies a ! i = Plain x \<and> x \<noteq> y \<longrightarrow>
      compare a (a\<lparr>dependencies := (dependencies a)[i := Plain y]\<rparr>) =
        [(''dependencies'', DependenciesDiff [(''item_'' @ str_nat i, ItemDiff x y)])])"
  using compare_same [of a b] compare_single_change [of i a x y]
  by (simp add: is_equal_def)

theorem compare_identical_and_single_change_witness:
  "compare
     \<lparr>name = ''sdk2-env'', channels = Some [''conda-forge''],
      dependencies = [Plain ''python=3.10'', Plain ''pip'', PipDependencies [''numpy'']]\<rparr>
     \<lparr>name = ''sdk2-env'', channels = Some [''conda-forge''],
      dependencies = [Plain ''python=3.10'', Plain ''pip'', PipDependencies [''numpy'']]\<rparr> = [] \<and>
   is_equal
     \<lparr>name = ''sdk2-env'', channels = Some [''conda-forge''],
      dependencies = [Plain ''python=3.10'', Plain ''pip'', PipDependencies [''numpy'']]\<rparr>
     \<lparr>name = ''sdk2-env'', channels = Some [''conda-forge''],
      dependencies = [Plain ''python=3.10'', Plain ''pip'', PipDependencies [''numpy'']]\<rparr> \<and>
   compare
     \<lparr>name = ''sdk2-env'', channels = Some [''conda-forge''],
      dependencies = [Plain ''python=3.10'', Plain ''pip'', PipDependencies [''numpy'']]\<rparr>
     \<lparr>name = ''sdk2-env'', channels = Some [''conda-forge''],
      dependencies = [Plain ''python=3.10'', Plain ''pip=23'', PipDependencies [''numpy'']]\<rparr> =
     [(''dependencies'', DependenciesDiff [(''item_1'', ItemDiff ''pip'' ''pip=23'')])]"
  using compare_identical_and_single_change
    [of "\<lparr>name = ''sdk2-env'', channels = Some [''conda-forge''],
          dependencies = [Plain ''python=3.10'', Plain ''pip'', PipDependencies [''numpy'']]\<rparr>"
        "\<lparr>name = ''sdk2-env'', channels = Some [''conda-forge''],
          dependencies = [Plain ''python=3.10'', Plain ''pip'', PipDependencies [''numpy'']]\<rparr>"
        1 "''pip''" "''pip=23''"]
  by (simp add: str_nat_small digit_char_def)

text \<open>
  C10: channel comparison depends on the order. Two manifests that differ only in the
  order of their channel lists (the same channel names, another list) have the diff
  whose only entry is \<open>channels\<close>, holding an empty symmetric difference; the diff is
  not empty, so \<open>is_equal\<close> is false.
\<close>

theorem compare_channels_order_sensitive:
  "name a = name b \<and> dependencies a = dependencies b \<and>
   channels a = Some ca \<and> channels b = Some cb \<and> set ca = set cb \<and> ca \<noteq> cb \<longrightarrow>
     compare a b = [(''channels'', ChannelsDiff (ChannelSet {}))] \<and>
     map_of (compare a b) ''channels'' = Some (ChannelsDiff (ChannelSet {})) \<and>
     compare a b \<noteq> [] \<and> \<not> is_equal a b"
  using compare_reordered_channels [of a b ca cb]
  by (simp add: is_equal_def)

theorem compare_channels_order_sensitive_witness:
  "compare
     \<lparr>name = ''sdk2-env'', channels = Some [''conda-forge'', ''defaults''],
      dependencies = [Plain ''python=3.10'']\<rparr>
     \<lparr>name = ''sdk2-env'', channels = Some [''defaults'', ''conda-forge''],
      dependencies = [Plain ''python=3.10'']\<rparr> =
     [(''channels'', ChannelsDiff (ChannelSet {}))] \<and>
   \<not> is_equal
     \<lparr>name = ''sdk2-env'', channels = Some [''conda-forge'', ''defaults''],
      dependencies = [Plain ''python=3.10'']\<rparr>
     \<lparr>name = ''sdk2-env'', channels = Some [''defaults'', ''conda-forge''],
      dependencies = [Plain ''python=3.10'']\<rparr>"
  using compare_channels_order_sensitive
    [of "\<lparr>name = ''sdk2-env'', channels = Some [''conda-forge'', ''defaults''],
          dependencies = [Plain ''python=3.10'']\<rparr>"
        "\<lparr>name = ''sdk2-env'', channels = Some [''defaults'', ''conda-forge''],
          dependencies = [Plain ''python=3.10'']\<rparr>"
        "[''conda-forge'', ''defaults'']" "[''defaults'', ''conda-forge'']"]
  by auto

lemma dep_step_keeps: "diff \<noteq> [] \<Longrightarrow> dep_step i d d' diff \<noteq> []"
  by (cases d; cases d') simp_all

lemma deps_loop_keeps: "diff \<noteq> [] \<Longrightarrow> deps_loop i zs diff \<noteq> []"
  by (induction zs arbitrary: i diff) (auto simp: dep_step_keeps)

lemma dep_step_differ: "d \<noteq> d' \<Longrightarrow> dep_step i d d' diff \<noteq> []"
  by (cases d; cases d') simp_all

lemma deps_loop_empty:
  "length xs = length ys \<Longrightarrow> deps_loop i (zip xs ys) [] = [] \<Longrightarrow> xs = ys"
proof (induction xs ys arbitrary: i rule: list_induct2)
  case Nil
  then show ?case by simp
next
  case (Cons x xs y ys)
  have "x = y"
  proof (rule ccontr)
    assume "x \<noteq> y"
    then have "dep_step i x y [] \<noteq> []" by (rule dep_step_differ)
    then have "deps_loop (Suc i) (zip xs ys) (dep_step i x y []) \<noteq> []"
      by (rule deps_loop_keeps)
    with Cons.prems show False by simp
  qed
  with Cons show ?case by (simp add: dep_step_same)
qed

lemma compare_dependencies_empty:
  assumes "compare_dependencies a b = []"
  shows "dependencies a = dependencies b"
proof -
  have len: "length (dependencies a) = length (dependencies b)"
  proof (rule ccontr)
    assume "length (dependencies a) \<noteq> length (dependencies b)"
    then have "compare_dependencies a b \<noteq> []"
      by (simp add: compare_dependencies_def deps_loop_keeps)
    with assms show False by simp
  qed
  with assms show ?thesis
    by (simp add: compare_dependencies_def deps_loop_empty)
qed

text \<open>\<open>is_equal\<close> holds exactly when the three fields agree.\<close>

lemma is_equal_iff:
  "is_equal a b \<longleftrightarrow>
   name a = name b \<and> channels a = channels b \<and> dependencies a = dependencies b"
proof
  assume eq: "is_equal a b"
  then have deps: "compare_dependencies a b = []"
    by (auto simp: is_equal_def compare_def Let_def split: if_splits)
  from eq have "name a = name b" "channels a = channels b"
    by (auto simp: is_equal_def compare_def Let_def split: if_splits)
  with compare_dependencies_empty [OF deps]
  show "name a = name b \<and> channels a = channels b \<and> dependencies a = dependencies b"
    by simp
next
  assume "name a = name b \<and> channels a = channels b \<and> dependencies a = dependencies b"
  then show "is_equal a b" by (simp add: is_equal_def compare_same)
qed

section \<open>Facts about the reconciler\<close>

lemma example_get_latest:
  "get_latest (example_world doc) (env_name example_env) = Inr (Some example_latest)"
  by (simp add: get_latest_def example_world_def example_env_def example_older_def
      example_latest_def item_def)


text \<open>
  C3: when the manifest of the latest registered environment is equal to the local one,
  \<open>get_create_or_update\<close> returns that remote environment as it is, and the client is
  left as it was: nothing is handed to \<open>create_or_update\<close>.
\<close>

theorem reconcile_unchanged:
  "get_latest w (env_name self) = Inr (Some latest) \<and>
   conda_files w (conda_file_path self) = Inr local_conda \<and>
   e_conda_file latest = Some (CondaDict remote_conda) \<and>
   validate_schema local_conda = Some local_schema \<and>
   validate_schema remote_conda = Some remote_schema \<and>
   is_equal remote_schema local_schema \<longrightarrow>
     get_create_or_update validate_schema self cv ci cd ct interactive w = (Inr latest, w) \<and>
     pushed (snd (get_create_or_update validate_schema self cv ci cd ct interactive w)) =
       pushed w"
  by (simp add: get_create_or_update_def)

theorem reconcile_unchanged_witness:
  "is_equal example_manifest example_manifest \<and>
   get_create_or_update Some example_env None None None None False
     (example_world example_manifest) =
     (Inr example_latest, example_world example_manifest) \<and>
   pushed (snd (get_create_or_update Some example_env None None None None False
     (example_world example_manifest))) = []"
proof -
  have eq: "is_equal example_manifest example_manifest"
    by (simp add: is_equal_iff)
  have disk: "conda_files (example_world example_manifest) (conda_file_path example_env) =
              Inr example_manifest"
    by (simp add: example_world_def example_env_def)
  have remote: "e_conda_file example_latest = Some (CondaDict example_manifest)"
    by (simp add: example_latest_def)
  have empty: "pushed (example_world example_manifest) = []"
    by (simp add: example_world_def)
  from reconcile_unchanged
    [of "example_world example_manifest" example_env example_latest example_manifest
        example_manifest Some example_manifest example_manifest None None None None False]
    example_get_latest [of example_manifest] eq disk remote empty
  show ?thesis by simp
qed





section \<open>The claims about versions\<close>



end
